theory Spec2Isabelle
  imports Main "HOL-Library.AList"
begin

section \<open>createAnimatedComponent.js: data model\<close>

text \<open>
  JavaScript values as the wrapper sees them. The source recognises its collaborators by
  \<open>instanceof\<close> and by probing for fields; the model closes that dispatch into
  constructors:
  \<^item> \<open>AnimatedValue id start\<close>: an instance of AnimatedValue with \<open>__nodeID = id\<close> and
    \<open>_startingValue = start\<close>;
  \<^item> \<open>AnimatedEvent id\<close>: an instance of AnimatedEvent with \<open>__nodeID = id\<close>;
  \<^item> \<open>AnimatedNode id\<close>: an instance of AnimatedNode that is neither of the two above;
  \<^item> \<open>HandlerRef h\<close>: an object whose \<open>current\<close> is the WorkletEventHandler stored at
    address \<open>h\<close>;
  \<^item> \<open>AnimatedStyle a\<close>: an object exposing \<open>viewDescriptors\<close>, \<open>initial\<close> and
    \<open>viewRef\<close> (what useAnimatedStyle and useAnimatedProps return), stored at address \<open>a\<close>;
  \<^item> \<open>JObj\<close>: any other object, as its enumerable entries in \<open>for ... in\<close> order (keys
    distinct): a plain object, with no \<open>viewDescriptors\<close> and no \<open>initial\<close>, and whose
    \<open>current\<close>, if it has one, is not a WorkletEventHandler;
  \<^item> \<open>JArr\<close>: an array; \<open>JFun\<close>: a function, by identity.
  AnimatedValue and AnimatedEvent are both subclasses of AnimatedNode. The fields of the
  graph nodes, handlers and containers other than the ones named here are not part of the
  model.
\<close>

datatype jsval =
    Undefined
  | Null
  | JBool bool
  | JNum int
  | JStr string
  | JFun nat
  | JArr "jsval list"
  | JObj "(string \<times> jsval) list"
  | AnimatedValue nat jsval
  | AnimatedEvent nat
  | AnimatedNode nat
  | HandlerRef nat
  | AnimatedStyle nat

type_synonym jsobject = "(string \<times> jsval) list"

datatype error =
    TypeError
  | Invariant string
  | Error string

text \<open>JavaScript truthiness (numbers are integers here, so there is no NaN).\<close>

fun truthy :: "jsval \<Rightarrow> bool" where
  "truthy Undefined = False"
| "truthy Null = False"
| "truthy (JBool b) = b"
| "truthy (JNum n) = (n \<noteq> 0)"
| "truthy (JStr s) = (s \<noteq> [])"
| "truthy _ = True"

text \<open>\<open>obj[key]\<close> on an object given by its entries: a missing key reads \<open>undefined\<close>.\<close>

definition getProp :: "jsobject \<Rightarrow> string \<Rightarrow> jsval" where
  "getProp obj key = (case map_of obj key of None \<Rightarrow> Undefined | Some v \<Rightarrow> v)"

text \<open>
  \<open>obj[key] = v\<close>: an existing key keeps its place in the enumeration order, a new key is
  appended.
\<close>

definition setProp :: "jsobject \<Rightarrow> string \<Rightarrow> jsval \<Rightarrow> jsobject" where
  "setProp obj key v = AList.update key v obj"

subsection \<open>The wrap constructor\<close>

text \<open>
  The argument of \<open>createAnimatedComponent\<close>: either a value whose \<open>typeof\<close> is not
  \<open>'function'\<close> (a host component name, a forwardRef or memo object), or a function with
  its \<open>prototype\<close> property: \<open>None\<close> when the prototype is undefined (an arrow function),
  otherwise the properties readable through it, inherited ones included (a class that extends
  React.Component reads \<open>isReactComponent\<close> from React.Component.prototype).
\<close>

datatype componentType =
    NotAFunction
  | Function "jsobject option"

datatype wrapped = AnimatedComponentWrapper componentType

definition stateless_msg :: string where
  "stateless_msg =
     ''`createAnimatedComponent` does not support stateless functional components; '' @
     ''use a class component instead.''"

text \<open>fbjs \<open>invariant(condition, message)\<close>: throws when the condition is falsy.\<close>

definition invariant :: "bool \<Rightarrow> string \<Rightarrow> error option" where
  "invariant cond msg = (if cond then None else Some (Invariant msg))"

fun isReactComponentProto :: "componentType \<Rightarrow> bool" where
  "isReactComponentProto NotAFunction = False"
| "isReactComponentProto (Function None) = False"
| "isReactComponentProto (Function (Some proto)) = truthy (getProp proto ''isReactComponent'')"

fun typeofFunction :: "componentType \<Rightarrow> bool" where
  "typeofFunction NotAFunction = False"
| "typeofFunction (Function _) = True"

definition createAnimatedComponent :: "componentType \<Rightarrow> error + wrapped" where
  "createAnimatedComponent Component =
     (case invariant (\<not> typeofFunction Component \<or> isReactComponentProto Component) stateless_msg of
        Some e \<Rightarrow> Inl e
      | None \<Rightarrow> Inr (AnimatedComponentWrapper Component))"

section \<open>The wrapper instance and its collaborators\<close>

text \<open>
  What \<open>findNodeHandle\<close> and the handlers' \<open>viewTag\<close> field hold: a number, \<open>null\<close> or
  \<open>undefined\<close>.
\<close>

datatype tag = TagUndefined | TagNull | Tag nat

datatype viewName = NameUndefined | NameNull | Name string

text \<open>
  The objects handed to \<open>findNodeHandle\<close>, \<open>attachEvent\<close> and \<open>detachEvent\<close>: the wrapper
  instance itself, the wrapped component instance, or what its \<open>getScrollableNode()\<close>
  returns.
\<close>

datatype target = WrapperInstance nat | ComponentInstance nat | ScrollableNode nat

text \<open>A property that may hold a method: missing (undefined or null), a non-function, or a function.\<close>

datatype memberFn = Absent | NotCallable | Callable

text \<open>
  The object the ref resolves to (\<open>_component\<close>): \<open>getScrollableNode\<close> is \<open>None\<close> when the
  component has no such method and \<open>Some n\<close> when calling it returns the node \<open>n\<close>.
\<close>

record componentRef =
  componentId :: nat
  setNativeProps :: memberFn
  getScrollableNode :: "nat option"

text \<open>Fields of an AnimatedComponent instance; \<open>None\<close> is \<open>undefined\<close> or \<open>null\<close>.\<close>

record animatedComponent =
  props :: jsobject
  component :: "componentRef option"
  propsAnimated :: "nat option"
  invokeAnimatedPropsCallbackOnMount :: bool

text \<open>The fields of a WorkletEventHandler that this file reads or writes.\<close>

record handler =
  eventNames :: "string list"
  reattachNeeded :: bool
  handlerViewTag :: tag
  handlerListeners :: "jsobject option"

text \<open>The fields of an animated style or animated props container that this file reads or writes.\<close>

record styleNode =
  initial :: jsobject
  viewRef :: "nat list"

record viewConfig =
  uiViewClassName :: "string option"

record hostInstance =
  nativeTag :: tag
  hostViewConfig :: "viewConfig option"

datatype subscriber = RegistryListener | OtherListener nat

datatype payload = NodeValue nat | Patch jsval

text \<open>
  Every call into a collaborator, in the order the source makes it. \<open>AssignPropsAnimated\<close>
  records the assignment \<open>this._propsAnimated = node\<close>, so that the order of installing a
  node and detaching the old one is visible.
\<close>

datatype call =
    AttachEvent nat target string
  | DetachEvent nat target string
  | RegisterForEvents nat tag string
  | UnregisterFromEvents nat
  | AddListener string subscriber
  | RemoveAllListeners string
  | AssignPropsAnimated nat nat
  | NodeDetach nat
  | SetNativeView nat "nat option"
  | SetNativeProps nat payload
  | ForceUpdate nat
  | AdaptViewConfig "viewConfig option"
  | ViewDescriptorsAdd nat tag viewName

text \<open>
  The mutable state: the instances, the module-level \<open>NODE_MAPPING\<close> (a Map, as its entries
  in insertion order), the subscriptions of ReanimatedEventEmitter (event type and listener),
  the handlers and style containers reachable from props, and the calls made so far.
\<close>

record world =
  instances :: "nat \<Rightarrow> animatedComponent"
  NODE_MAPPING :: "(tag \<times> nat) list"
  emitter :: "(string \<times> subscriber) list"
  handlers :: "nat \<Rightarrow> handler"
  styles :: "nat \<Rightarrow> styleNode"
  trace :: "call list"

text \<open>
  What the file imports and only calls: \<open>Platform.OS\<close>, \<open>findNodeHandle\<close>,
  \<open>RNRenderer.findHostInstance_DEPRECATED\<close> (\<open>None\<close> when it returns null),
  \<open>createOrReusePropsNode\<close> (given the props, the instance whose callback is passed and the
  old node; it returns the node to hold) and \<open>StyleSheet.flatten\<close> (the entries of the
  object it returns; none when it returns undefined).
\<close>

record env =
  platformOS :: string
  findNodeHandle :: "target \<Rightarrow> tag"
  findHostInstance :: "nat \<Rightarrow> hostInstance option"
  createOrReusePropsNode :: "jsobject \<Rightarrow> nat \<Rightarrow> nat option \<Rightarrow> nat"
  flatten :: "jsval \<Rightarrow> jsobject"

type_synonym outcome = "world \<times> error option"

definition emit :: "call \<Rightarrow> world \<Rightarrow> world" where
  "emit c w = w\<lparr>trace := trace w @ [c]\<rparr>"

definition updInstance :: "nat \<Rightarrow> (animatedComponent \<Rightarrow> animatedComponent) \<Rightarrow> world \<Rightarrow> world" where
  "updInstance self f w = w\<lparr>instances := (instances w)(self := f (instances w self))\<rparr>"

text \<open>Sequencing: a thrown error stops what follows and keeps the effects made so far.\<close>

definition andThen :: "(world \<Rightarrow> outcome) \<Rightarrow> (world \<Rightarrow> outcome) \<Rightarrow> world \<Rightarrow> outcome" where
  "andThen f g w = (case f w of (w', None) \<Rightarrow> g w' | (w', Some e) \<Rightarrow> (w', Some e))"

definition ok :: "world \<Rightarrow> outcome" where
  "ok w = (w, None)"

definition channel :: string where
  "channel = ''onReanimatedPropsChange''"


subsection \<open>Module-level helpers\<close>


fun flattenItems :: "jsval list \<Rightarrow> jsval list" where
  "flattenItems [] = []"
| "flattenItems (JArr ys # xs) = flattenItems ys @ flattenItems xs"
| "flattenItems (x # xs) = x # flattenItems xs"

fun flattenArray :: "jsval \<Rightarrow> jsval" where
  "flattenArray (JArr xs) = JArr (flattenItems xs)"
| "flattenArray v = v"

subsection \<open>Native events\<close>

definition getEventViewRef :: "nat \<Rightarrow> world \<Rightarrow> error + target" where
  "getEventViewRef self w =
     (case component (instances w self) of
        None \<Rightarrow> Inl TypeError
      | Some c \<Rightarrow>
          (case getScrollableNode c of
             Some n \<Rightarrow> Inr (ScrollableNode n)
           | None \<Rightarrow> Inr (ComponentInstance (componentId c))))"

fun attachNativeEvent :: "target \<Rightarrow> tag \<Rightarrow> string \<times> jsval \<Rightarrow> world \<Rightarrow> world" where
  "attachNativeEvent node viewTag (key, AnimatedEvent n) w = emit (AttachEvent n node key) w"
| "attachNativeEvent node viewTag (key, HandlerRef h) w = emit (RegisterForEvents h viewTag key) w"
| "attachNativeEvent node viewTag (key, prop) w = w"

definition attachNativeEvents :: "env \<Rightarrow> nat \<Rightarrow> world \<Rightarrow> outcome" where
  "attachNativeEvents e self w =
     (case getEventViewRef self w of
        Inl err \<Rightarrow> (w, Some err)
      | Inr node \<Rightarrow>
          ok (fold (attachNativeEvent node (findNodeHandle e node)) (props (instances w self)) w))"

fun detachNativeEvent :: "target \<Rightarrow> string \<times> jsval \<Rightarrow> world \<Rightarrow> world" where
  "detachNativeEvent node (key, AnimatedEvent n) w = emit (DetachEvent n node key) w"
| "detachNativeEvent node (key, HandlerRef h) w = emit (UnregisterFromEvents h) w"
| "detachNativeEvent node (key, prop) w = w"

definition detachNativeEvents :: "nat \<Rightarrow> world \<Rightarrow> outcome" where
  "detachNativeEvents self w =
     (case getEventViewRef self w of
        Inl err \<Rightarrow> (w, Some err)
      | Inr node \<Rightarrow> ok (fold (detachNativeEvent node) (props (instances w self)) w))"

text \<open>
  \<open>_reattachNativeEvents\<close>, loop by loop. The first loop fills \<open>nextEvts\<close> and takes
  \<open>viewTag\<close> from the first handler met while it is still undefined.
\<close>

fun collectNext :: "world \<Rightarrow> string \<times> jsval \<Rightarrow> nat set \<times> tag \<Rightarrow> nat set \<times> tag" where
  "collectNext w (key, AnimatedEvent n) (nextEvts, viewTag) = (insert n nextEvts, viewTag)"
| "collectNext w (key, HandlerRef h) (nextEvts, viewTag) =
     (nextEvts, if viewTag = TagUndefined then handlerViewTag (handlers w h) else viewTag)"
| "collectNext w (key, prop) acc = acc"

text \<open>
  The second loop runs over the keys of \<open>prevProps\<close> and reads \<open>this.props[key]\<close>, as the
  source does; \<open>thisProps\<close> are the current props.
\<close>

definition detachRemoved ::
  "target \<Rightarrow> jsobject \<Rightarrow> nat set \<Rightarrow> string \<Rightarrow> world \<times> nat set \<Rightarrow> world \<times> nat set" where
  "detachRemoved node thisProps nextEvts key st =
     (case st of (w, attached) \<Rightarrow>
        (case getProp thisProps key of
           AnimatedEvent n \<Rightarrow>
             if n \<notin> nextEvts then (emit (DetachEvent n node key) w, attached)
             else (w, insert n attached)
         | HandlerRef h \<Rightarrow>
             if reattachNeeded (handlers w h) then (emit (UnregisterFromEvents h) w, attached)
             else (w, attached)
         | _ \<Rightarrow> (w, attached)))"

definition clearReattachNeeded :: "nat \<Rightarrow> world \<Rightarrow> world" where
  "clearReattachNeeded h w =
     w\<lparr>handlers := (handlers w)(h := (handlers w h)\<lparr>reattachNeeded := False\<rparr>)\<rparr>"

fun attachNew :: "target \<Rightarrow> tag \<Rightarrow> nat set \<Rightarrow> string \<times> jsval \<Rightarrow> world \<Rightarrow> world" where
  "attachNew node viewTag attached (key, AnimatedEvent n) w =
     (if n \<notin> attached then emit (AttachEvent n node key) w else w)"
| "attachNew node viewTag attached (key, HandlerRef h) w =
     (if reattachNeeded (handlers w h)
      then clearReattachNeeded h (emit (RegisterForEvents h viewTag key) w)
      else w)"
| "attachNew node viewTag attached (key, prop) w = w"

definition reattachNativeEvents :: "nat \<Rightarrow> jsobject \<Rightarrow> world \<Rightarrow> outcome" where
  "reattachNativeEvents self prevProps w =
     (case getEventViewRef self w of
        Inl err \<Rightarrow> (w, Some err)
      | Inr node \<Rightarrow>
          (let thisProps = props (instances w self);
               (nextEvts, viewTag) = fold (collectNext w) thisProps ({}, TagUndefined);
               (w1, attached) =
                  fold (detachRemoved node thisProps nextEvts) (map fst prevProps) (w, {})
           in ok (fold (attachNew node viewTag attached) thisProps w1)))"

subsection \<open>The animated props node\<close>

definition animatedPropsCallback :: "nat \<Rightarrow> world \<Rightarrow> outcome" where
  "animatedPropsCallback self w =
     (case component (instances w self) of
        None \<Rightarrow> ok (updInstance self (\<lambda>i. i\<lparr>invokeAnimatedPropsCallbackOnMount := True\<rparr>) w)
      | Some c \<Rightarrow>
          if setNativeProps c \<noteq> Callable then ok (emit (ForceUpdate self) w)
          else
            (case propsAnimated (instances w self) of
               None \<Rightarrow> (w, Some TypeError)
             | Some n \<Rightarrow> ok (emit (SetNativeProps (componentId c) (NodeValue n)) w)))"

definition attachProps :: "env \<Rightarrow> nat \<Rightarrow> jsobject \<Rightarrow> world \<Rightarrow> world" where
  "attachProps e self nextProps w =
     (let oldPropsAnimated = propsAnimated (instances w self);
          new = createOrReusePropsNode e nextProps self oldPropsAnimated;
          w1 = emit (AssignPropsAnimated self new)
                 (updInstance self (\<lambda>i. i\<lparr>propsAnimated := Some new\<rparr>) w)
      in if oldPropsAnimated \<noteq> Some new
         then (case oldPropsAnimated of Some old \<Rightarrow> emit (NodeDetach old) w1 | None \<Rightarrow> w1)
         else w1)"

definition setNativeView :: "nat \<Rightarrow> world \<Rightarrow> world" where
  "setNativeView self w =
     (case propsAnimated (instances w self) of
        None \<Rightarrow> w
      | Some n \<Rightarrow> emit (SetNativeView n (map_option componentId (component (instances w self)))) w)"

subsection \<open>The registry of mounted instances\<close>

text \<open>
  ReanimatedEventEmitter is an event emitter of the host platform: \<open>addListener\<close> adds one
  subscription of the listener to the event type, \<open>removeAllListeners\<close> drops every
  subscription of the event type.
\<close>

definition addListener :: "string \<Rightarrow> subscriber \<Rightarrow> world \<Rightarrow> world" where
  "addListener eventType l w = emit (AddListener eventType l) (w\<lparr>emitter := emitter w @ [(eventType, l)]\<rparr>)"

definition removeAllListeners :: "string \<Rightarrow> world \<Rightarrow> world" where
  "removeAllListeners eventType w =
     emit (RemoveAllListeners eventType)
       (w\<lparr>emitter := filter (\<lambda>s. fst s \<noteq> eventType) (emitter w)\<rparr>)"



definition attachPropUpdater :: "env \<Rightarrow> nat \<Rightarrow> world \<Rightarrow> world" where
  "attachPropUpdater e self w =
     (let viewTag = findNodeHandle e (WrapperInstance self);
          w1 = w\<lparr>NODE_MAPPING := AList.update viewTag self (NODE_MAPPING w)\<rparr>
      in if length (NODE_MAPPING w1) = 1 then addListener channel RegistryListener w1 else w1)"

definition detachPropUpdater :: "env \<Rightarrow> nat \<Rightarrow> world \<Rightarrow> world" where
  "detachPropUpdater e self w =
     (let viewTag = findNodeHandle e (WrapperInstance self);
          w1 = w\<lparr>NODE_MAPPING := AList.delete viewTag (NODE_MAPPING w)\<rparr>
      in if length (NODE_MAPPING w1) = 0 then removeAllListeners channel w1 else w1)"

subsection \<open>Publishing view descriptors\<close>

definition hostInstance_msg :: string where
  "hostInstance_msg = ''Cannot find host instance for this component. Maybe it renders nothing?''"

fun isAnimatedStyle :: "jsval \<Rightarrow> bool" where
  "isAnimatedStyle (AnimatedStyle a) = True"
| "isAnimatedStyle v = False"

definition hasReanimated2Props :: "jsobject \<Rightarrow> jsval list \<Rightarrow> bool" where
  "hasReanimated2Props thisProps flattenStyles =
     (if isAnimatedStyle (getProp thisProps ''animatedProps'') then True
      else if truthy (getProp thisProps ''style'') then list_ex isAnimatedStyle flattenStyles
      else False)"

fun addViewDescriptor :: "tag \<Rightarrow> viewName \<Rightarrow> jsval \<Rightarrow> world \<Rightarrow> world" where
  "addViewDescriptor viewTag name (AnimatedStyle a) w = emit (ViewDescriptorsAdd a viewTag name) w"
| "addViewDescriptor viewTag name v w = w"

fun arrayItems :: "jsval \<Rightarrow> jsval list" where
  "arrayItems (JArr xs) = xs"
| "arrayItems v = [v]"

definition attachAnimatedStyles :: "env \<Rightarrow> nat \<Rightarrow> world \<Rightarrow> outcome" where
  "attachAnimatedStyles e self w =
     (let thisProps = props (instances w self);
          styles0 = JArr (arrayItems (getProp thisProps ''style''));
          flatStyles = arrayItems (flattenArray styles0);
          publish = (\<lambda>viewTag name w0.
            addViewDescriptor viewTag name (getProp thisProps ''animatedProps'')
              (fold (addViewDescriptor viewTag name) flatStyles w0))
      in if platformOS e = ''web''
         then ok (publish (findNodeHandle e (WrapperInstance self)) NameNull w)
         else
           (case findHostInstance e self of
              None \<Rightarrow> (w, Some (Error hostInstance_msg))
            | Some host \<Rightarrow>
                (let viewName =
                       (case hostViewConfig host of
                          None \<Rightarrow> NameUndefined
                        | Some cfg \<Rightarrow>
                            (case uiViewClassName cfg of
                               None \<Rightarrow> NameUndefined
                             | Some n \<Rightarrow> Name n));
                     w1 = (if hasReanimated2Props thisProps flatStyles
                           then emit (AdaptViewConfig (hostViewConfig host)) w else w)
                 in ok (publish (nativeTag host) viewName w1))))"

subsection \<open>Projecting props for render\<close>






definition spliceEntry :: "string \<times> jsval \<Rightarrow> jsobject \<Rightarrow> jsobject" where
  "spliceEntry kv acc = setProp acc (fst kv) (snd kv)"






subsection \<open>Lifecycle\<close>

definition newInstance :: "jsobject \<Rightarrow> animatedComponent" where
  "newInstance ps =
     \<lparr>props = ps, component = None, propsAnimated = None,
      invokeAnimatedPropsCallbackOnMount = False\<rparr>"

definition constructor :: "env \<Rightarrow> nat \<Rightarrow> jsobject \<Rightarrow> world \<Rightarrow> world" where
  "constructor e self ps w =
     attachProps e self ps (w\<lparr>instances := (instances w)(self := newInstance ps)\<rparr>)"

text \<open>
  \<open>setLocalRef\<close> of \<open>_setComponentRef\<close>: it stores the ref; the deprecated \<open>getNode\<close> helper
  that it also adds to the ref is left out.
\<close>

definition setLocalRef :: "nat \<Rightarrow> componentRef option \<Rightarrow> world \<Rightarrow> world" where
  "setLocalRef self r w =
     (if r \<noteq> component (instances w self) then updInstance self (\<lambda>i. i\<lparr>component := r\<rparr>) w
      else w)"

text \<open>The first statement of \<open>componentDidMount\<close>, and then the whole of it.\<close>

definition replayDeferredCallback :: "nat \<Rightarrow> world \<Rightarrow> outcome" where
  "replayDeferredCallback self w =
     (if invokeAnimatedPropsCallbackOnMount (instances w self)
      then animatedPropsCallback self
             (updInstance self (\<lambda>i. i\<lparr>invokeAnimatedPropsCallbackOnMount := False\<rparr>) w)
      else ok w)"

definition componentDidMount :: "env \<Rightarrow> nat \<Rightarrow> world \<Rightarrow> outcome" where
  "componentDidMount e self =
     andThen (replayDeferredCallback self)
    (andThen (\<lambda>w. ok (setNativeView self w))
    (andThen (attachNativeEvents e self)
    (andThen (\<lambda>w. ok (attachPropUpdater e self w))
             (attachAnimatedStyles e self))))"

definition componentDidUpdate :: "env \<Rightarrow> nat \<Rightarrow> jsobject \<Rightarrow> world \<Rightarrow> outcome" where
  "componentDidUpdate e self prevProps =
     andThen (\<lambda>w. ok (attachProps e self (props (instances w self)) w))
    (andThen (reattachNativeEvents self prevProps)
    (andThen (\<lambda>w. ok (setNativeView self w))
             (attachAnimatedStyles e self)))"

definition componentWillUnmount :: "env \<Rightarrow> nat \<Rightarrow> world \<Rightarrow> outcome" where
  "componentWillUnmount e self =
     andThen (\<lambda>w. ok (detachPropUpdater e self w))
    (andThen (\<lambda>w. ok (case propsAnimated (instances w self) of
                         None \<Rightarrow> w | Some n \<Rightarrow> emit (NodeDetach n) w))
             (detachNativeEvents self))"

section \<open>Vocabulary of the properties\<close>

subsection \<open>Calls of an update\<close>

fun isDetachEvent :: "call \<Rightarrow> bool" where
  "isDetachEvent (DetachEvent n node key) = True"
| "isDetachEvent c = False"

subsection \<open>Sequences of registry operations\<close>

text \<open>
  \<open>register\<close> is \<open>_attachPropUpdater\<close> and \<open>unregister\<close> is \<open>_detachPropUpdater\<close>, each on
  the instance named; the view identifier is what \<open>findNodeHandle\<close> resolves for it.
\<close>

datatype registryOp = Register nat | Unregister nat

fun applyOp :: "env \<Rightarrow> registryOp \<Rightarrow> world \<Rightarrow> world" where
  "applyOp e (Register i) w = attachPropUpdater e i w"
| "applyOp e (Unregister i) w = detachPropUpdater e i w"

definition runOps :: "env \<Rightarrow> registryOp list \<Rightarrow> world \<Rightarrow> world" where
  "runOps e ops w = fold (applyOp e) ops w"

definition subscribed :: "world \<Rightarrow> bool" where
  "subscribed w = ((channel, RegistryListener) \<in> set (emitter w))"

text \<open>Keys of the Map are distinct, and the module's listener is subscribed iff it has an entry.\<close>

definition registryInv :: "world \<Rightarrow> bool" where
  "registryInv w =
     (distinct (map fst (NODE_MAPPING w)) \<and> (subscribed w = (NODE_MAPPING w \<noteq> [])))"

subsection \<open>Firings of the update callback\<close>

text \<open>
  The calls by which an invocation of \<open>_animatedPropsCallback\<close> shows once a component
  reference exists: \<open>forceUpdate()\<close>, or \<open>setNativeProps\<close> with the value of the props node.
\<close>

fun isCallbackEffect :: "call \<Rightarrow> bool" where
  "isCallbackEffect (ForceUpdate i) = True"
| "isCallbackEffect (SetNativeProps c (NodeValue n)) = True"
| "isCallbackEffect c = False"

definition callbackEffects :: "world \<Rightarrow> nat" where
  "callbackEffects w = length (filter isCallbackEffect (trace w))"

text \<open>The callback fired \<open>n\<close> times in a row.\<close>

fun fireCallback :: "nat \<Rightarrow> nat \<Rightarrow> world \<Rightarrow> outcome" where
  "fireCallback self 0 w = ok w"
| "fireCallback self (Suc n) w = andThen (animatedPropsCallback self) (fireCallback self n) w"

text \<open>A step that leaves the instances as they are and adds no effect of the callback.\<close>

definition quiet :: "world \<Rightarrow> world \<Rightarrow> bool" where
  "quiet w w' = (instances w' = instances w \<and> callbackEffects w' = callbackEffects w)"

subsection \<open>What the projection reads and writes\<close>


text \<open>
  The second state is the first one except that some \<open>viewRef\<close> lists have had the instance
  appended to them, any number of times.
\<close>

definition onlyViewRefGrown :: "nat \<Rightarrow> world \<Rightarrow> world \<Rightarrow> bool" where
  "onlyViewRefGrown self w w' =
     (instances w' = instances w \<and> NODE_MAPPING w' = NODE_MAPPING w \<and> emitter w' = emitter w \<and>
      handlers w' = handlers w \<and> trace w' = trace w \<and>
      (\<forall>a. initial (styles w' a) = initial (styles w a) \<and>
           (\<exists>k. viewRef (styles w' a) = viewRef (styles w a) @ replicate k self)))"


subsection \<open>Example states\<close>

text \<open>
  \<open>StyleSheet.flatten\<close> as React Native implements it, for the examples: later entries
  override earlier ones, and what is not an object contributes nothing.
\<close>

fun flattenStyle :: "jsval \<Rightarrow> jsobject" where
  "flattenStyle (JObj kvs) = kvs"
| "flattenStyle (JArr xs) = fold (\<lambda>x result. fold spliceEntry (flattenStyle x) result) xs []"
| "flattenStyle v = []"

definition exampleHandler :: handler where
  "exampleHandler =
     \<lparr>eventNames = [], reattachNeeded = False, handlerViewTag = TagUndefined,
      handlerListeners = None\<rparr>"

definition exampleWorld :: world where
  "exampleWorld =
     \<lparr>instances = (\<lambda>i. newInstance []), NODE_MAPPING = [], emitter = [],
      handlers = (\<lambda>h. exampleHandler), styles = (\<lambda>a. \<lparr>initial = [], viewRef = []\<rparr>),
      trace = []\<rparr>"

text \<open>Every instance resolves to a view of its own; the binder always builds node 1.\<close>

definition exampleEnv :: "string \<Rightarrow> env" where
  "exampleEnv os =
     \<lparr>platformOS = os,
      findNodeHandle = (\<lambda>t. case t of WrapperInstance i \<Rightarrow> Tag i
                              | ComponentInstance c \<Rightarrow> Tag c | ScrollableNode n \<Rightarrow> Tag n),
      findHostInstance = (\<lambda>i. Some \<lparr>nativeTag = Tag i, hostViewConfig = None\<rparr>),
      createOrReusePropsNode = (\<lambda>ps self old. 1),
      flatten = flattenStyle\<rparr>"

text \<open>The wrapped components render nothing: no handle and no host instance is found.\<close>

definition nothingRendered :: "string \<Rightarrow> env" where
  "nothingRendered os =
     (exampleEnv os)\<lparr>findNodeHandle := (\<lambda>t. TagNull), findHostInstance := (\<lambda>i. None)\<rparr>"

definition exampleComponent :: "memberFn \<Rightarrow> componentRef" where
  "exampleComponent m = \<lparr>componentId = 5, setNativeProps = m, getScrollableNode = None\<rparr>"

section \<open>Properties\<close>

subsection \<open>Wrap-construction check\<close>

text \<open>
  C8: a function whose prototype does not mark it as a React class component (no prototype,
  or a prototype without a truthy \<open>isReactComponent\<close>) is rejected by
  \<open>createAnimatedComponent\<close> itself with the descriptive invariant message; a class
  component is wrapped without an error.
\<close>

theorem createAnimatedComponent_stateless_rejected:
  "(typeofFunction Component \<and> \<not> isReactComponentProto Component \<longrightarrow>
      createAnimatedComponent Component = Inl (Invariant stateless_msg)) \<and>
   (typeofFunction Component \<and> isReactComponentProto Component \<longrightarrow>
      createAnimatedComponent Component = Inr (AnimatedComponentWrapper Component))"
  by (simp add: createAnimatedComponent_def invariant_def)

theorem createAnimatedComponent_stateless_rejected_witness:
  "typeofFunction (Function None) \<and> \<not> isReactComponentProto (Function None) \<and>
   createAnimatedComponent (Function None) = Inl (Invariant stateless_msg) \<and>
   typeofFunction (Function (Some [(''isReactComponent'', JObj [])])) \<and>
   isReactComponentProto (Function (Some [(''isReactComponent'', JObj [])])) \<and>
   createAnimatedComponent (Function (Some [(''isReactComponent'', JObj [])])) =
     Inr (AnimatedComponentWrapper (Function (Some [(''isReactComponent'', JObj [])])))"
  using createAnimatedComponent_stateless_rejected [of "Function None"]
    createAnimatedComponent_stateless_rejected [of "Function (Some [(''isReactComponent'', JObj [])])"]
  by (simp add: getProp_def)

subsection \<open>Basic facts\<close>

lemma trace_emit [simp]: "trace (emit c w) = trace w @ [c]"
  by (simp add: emit_def)

lemma instances_emit [simp]: "instances (emit c w) = instances w"
  by (simp add: emit_def)

subsection \<open>Event bindings across an update\<close>

lemma collectNext_mono: "n \<in> fst acc \<Longrightarrow> n \<in> fst (collectNext w kv acc)"
  by (cases "(w, kv, acc)" rule: collectNext.cases) simp_all

lemma fold_collectNext_mono: "n \<in> fst acc \<Longrightarrow> n \<in> fst (fold (collectNext w) ps acc)"
  by (induction ps arbitrary: acc) (simp_all add: collectNext_mono)

lemma fold_collectNext_member:
  "(key, AnimatedEvent n) \<in> set ps \<Longrightarrow> n \<in> fst (fold (collectNext w) ps acc)"
proof (induction ps arbitrary: acc)
  case Nil
  then show ?case by simp
next
  case (Cons kv ps)
  show ?case
  proof (cases "kv = (key, AnimatedEvent n)")
    case True
    then have "n \<in> fst (collectNext w kv acc)" by (cases acc) simp
    then show ?thesis by (simp add: fold_collectNext_mono)
  next
    case False
    then show ?thesis using Cons by simp
  qed
qed

lemma getProp_event_member:
  "getProp thisProps key = AnimatedEvent n \<Longrightarrow> (key, AnimatedEvent n) \<in> set thisProps"
  by (auto simp add: getProp_def split: option.splits dest: map_of_SomeD)

lemma detachRemoved_no_detach:
  assumes "\<And>k n. getProp thisProps k = AnimatedEvent n \<Longrightarrow> n \<in> nextEvts"
  shows "filter isDetachEvent (trace (fst (detachRemoved node thisProps nextEvts key st))) =
         filter isDetachEvent (trace (fst st))"
  using assms [of key]
  by (cases st) (auto simp add: detachRemoved_def split: jsval.splits)

lemma fold_detachRemoved_no_detach:
  assumes "\<And>k n. getProp thisProps k = AnimatedEvent n \<Longrightarrow> n \<in> nextEvts"
  shows "filter isDetachEvent (trace (fst (fold (detachRemoved node thisProps nextEvts) keys st))) =
         filter isDetachEvent (trace (fst st))"
proof (induction keys arbitrary: st)
  case Nil
  show ?case by simp
next
  case (Cons k keys)
  show ?case
    using Cons.IH [of "detachRemoved node thisProps nextEvts k st"]
      detachRemoved_no_detach [of thisProps nextEvts node k st] assms
    by simp
qed

lemma attachNew_no_detach:
  "filter isDetachEvent (trace (attachNew node viewTag attached kv w)) =
   filter isDetachEvent (trace w)"
  by (cases "(node, viewTag, attached, kv, w)" rule: attachNew.cases)
    (simp_all add: clearReattachNeeded_def)

lemma fold_attachNew_no_detach:
  "filter isDetachEvent (trace (fold (attachNew node viewTag attached) ps w)) =
   filter isDetachEvent (trace w)"
  by (induction ps arbitrary: w) (simp_all add: attachNew_no_detach)

text \<open>
  Whatever the previous props were, \<open>_reattachNativeEvents\<close> issues no \<open>detachEvent\<close>: the
  event its second loop reads comes from the current props, and every event of the current
  props is in \<open>nextEvts\<close>.
\<close>

lemma reattachNativeEvents_never_detaches:
  "filter isDetachEvent (trace (fst (reattachNativeEvents self prevProps w))) =
   filter isDetachEvent (trace w)"
proof (cases "getEventViewRef self w")
  case (Inl err)
  then show ?thesis by (simp add: reattachNativeEvents_def)
next
  case (Inr node)
  let ?ps = "props (instances w self)"
  let ?next = "fst (fold (collectNext w) ?ps ({}, TagUndefined))"
  have n: "\<And>k n. getProp ?ps k = AnimatedEvent n \<Longrightarrow> n \<in> ?next"
    using fold_collectNext_member getProp_event_member by fast
  show ?thesis
    using Inr n fold_detachRemoved_no_detach [of ?ps ?next node "map fst prevProps" "(w, {})"]
    by (simp add: reattachNativeEvents_def Let_def split_beta ok_def fold_attachNew_no_detach)
qed

text \<open>
  C1: an update from \<open>{onScroll: handlerA}\<close> to \<open>{onScroll: handlerB}\<close> should detach
  \<open>handlerA\<close> and then attach \<open>handlerB\<close>. \<open>_reattachNativeEvents\<close> issues no call at all,
  whatever the two identities are: its second loop reads \<open>this.props[key]\<close> where the
  previous props are meant, so the event it looks at is always in \<open>nextEvts\<close>, nothing is
  detached and the new event is marked as already attached.
\<close>

theorem reattachNativeEvents_changed_handler_no_call:
  "reattachNativeEvents self [(''onScroll'', AnimatedEvent handlerA)]
     (w\<lparr>instances := (instances w)(self :=
          \<lparr>props = [(''onScroll'', AnimatedEvent handlerB)], component = Some c,
           propsAnimated = p, invokeAnimatedPropsCallbackOnMount = f\<rparr>)\<rparr>)
   = (w\<lparr>instances := (instances w)(self :=
          \<lparr>props = [(''onScroll'', AnimatedEvent handlerB)], component = Some c,
           propsAnimated = p, invokeAnimatedPropsCallbackOnMount = f\<rparr>)\<rparr>, None)"
  by (simp add: reattachNativeEvents_def getEventViewRef_def detachRemoved_def getProp_def ok_def
      split: option.splits)

subsection \<open>Replacing the props node\<close>

text \<open>
  C2: \<open>_attachProps\<close> holds the node the binder returned afterwards. When that is the node
  it held before, the only effect is the assignment and nothing is detached; when there was
  no node before, likewise; when the binder built another node, the old one is detached
  exactly once, after the assignment that installs the new one.
\<close>

theorem attachProps_detaches_after_install:
  assumes "propsAnimated (instances w self) = old"
    and "createOrReusePropsNode e nextProps self old = new"
  shows "propsAnimated (instances (attachProps e self nextProps w) self) = Some new \<and>
    (old = Some new \<longrightarrow>
       trace (attachProps e self nextProps w) = trace w @ [AssignPropsAnimated self new]) \<and>
    (old = None \<longrightarrow>
       trace (attachProps e self nextProps w) = trace w @ [AssignPropsAnimated self new]) \<and>
    (\<forall>n. old = Some n \<and> n \<noteq> new \<longrightarrow>
       trace (attachProps e self nextProps w) =
         trace w @ [AssignPropsAnimated self new, NodeDetach n])"
  using assms
  by (auto simp add: attachProps_def Let_def updInstance_def emit_def split: option.splits)

theorem attachProps_detaches_after_install_witness:
  "trace (attachProps (exampleEnv ''ios'') 0 []
            (updInstance 0 (\<lambda>i. i\<lparr>propsAnimated := Some 7\<rparr>) exampleWorld)) =
     [AssignPropsAnimated 0 1, NodeDetach 7] \<and>
   trace (attachProps (exampleEnv ''ios'') 0 []
            (updInstance 0 (\<lambda>i. i\<lparr>propsAnimated := Some 1\<rparr>) exampleWorld)) =
     [AssignPropsAnimated 0 1] \<and>
   trace (attachProps (exampleEnv ''ios'') 0 [] exampleWorld) = [AssignPropsAnimated 0 1] \<and>
   propsAnimated (instances (attachProps (exampleEnv ''ios'') 0 []
            (updInstance 0 (\<lambda>i. i\<lparr>propsAnimated := Some 7\<rparr>) exampleWorld)) 0) = Some 1"
  using attachProps_detaches_after_install
      [of "updInstance 0 (\<lambda>i. i\<lparr>propsAnimated := Some 7\<rparr>) exampleWorld" 0 "Some 7"
          "exampleEnv ''ios''" "[]" 1]
    attachProps_detaches_after_install
      [of "updInstance 0 (\<lambda>i. i\<lparr>propsAnimated := Some 1\<rparr>) exampleWorld" 0 "Some 1"
          "exampleEnv ''ios''" "[]" 1]
    attachProps_detaches_after_install
      [of exampleWorld 0 None "exampleEnv ''ios''" "[]" 1]
  by (simp add: exampleEnv_def exampleWorld_def updInstance_def newInstance_def)

subsection \<open>The registry and its subscription\<close>

lemma update_length_not_1: "length (AList.update k v al) \<noteq> Suc 0 \<Longrightarrow> al \<noteq> []"
  by (cases al) auto

lemma registryInv_attach: "registryInv w \<Longrightarrow> registryInv (attachPropUpdater e i w)"
  by (auto simp add: registryInv_def attachPropUpdater_def Let_def addListener_def emit_def
      subscribed_def distinct_update dest: update_length_not_1)

lemma registryInv_detach: "registryInv w \<Longrightarrow> registryInv (detachPropUpdater e i w)"
  by (auto simp add: registryInv_def detachPropUpdater_def Let_def removeAllListeners_def emit_def
      subscribed_def distinct_delete)

lemma registryInv_runOps: "registryInv w \<Longrightarrow> registryInv (runOps e ops w)"
  unfolding runOps_def
proof (induction ops arbitrary: w)
  case Nil
  then show ?case by simp
next
  case (Cons op ops)
  have "registryInv (applyOp e op w)"
    using Cons.prems by (cases op) (simp_all add: registryInv_attach registryInv_detach)
  then show ?case using Cons.IH by simp
qed

lemma attachPropUpdater_trace:
  "trace (attachPropUpdater e i w) =
     trace w @ (if length (NODE_MAPPING (attachPropUpdater e i w)) = 1
                then [AddListener channel RegistryListener] else [])"
  by (simp add: attachPropUpdater_def Let_def addListener_def emit_def)

lemma detachPropUpdater_trace:
  "trace (detachPropUpdater e i w) =
     trace w @ (if length (NODE_MAPPING (detachPropUpdater e i w)) = 0
                then [RemoveAllListeners channel] else [])"
  by (simp add: detachPropUpdater_def Let_def removeAllListeners_def emit_def)

lemma attachPropUpdater_first_entry:
  "NODE_MAPPING w = [] \<Longrightarrow> length (NODE_MAPPING (attachPropUpdater e i w)) = 1"
  by (simp add: attachPropUpdater_def Let_def addListener_def emit_def)

lemma detachPropUpdater_last_entry:
  "NODE_MAPPING w = [(findNodeHandle e (WrapperInstance i), j)] \<Longrightarrow>
   length (NODE_MAPPING (detachPropUpdater e i w)) = 0"
  by (simp add: detachPropUpdater_def Let_def removeAllListeners_def emit_def)

lemma register_two_unregister_both:
  "findNodeHandle e (WrapperInstance a) \<noteq> findNodeHandle e (WrapperInstance b) \<Longrightarrow>
   NODE_MAPPING w = [] \<Longrightarrow>
   trace (runOps e [Register a, Register b, Unregister a, Unregister b] w) =
     trace w @ [AddListener channel RegistryListener, RemoveAllListeners channel]"
  by (simp add: runOps_def attachPropUpdater_def detachPropUpdater_def Let_def addListener_def
      removeAllListeners_def emit_def)

text \<open>
  C3, as the code has it: along every sequence of register and unregister operations the
  module's listener stays subscribed iff the registry has an entry. A register subscribes
  exactly when the registry holds one entry after it, which covers the step from no entry
  to one and also a register that overwrites the only entry; an unregister calls
  \<open>removeAllListeners\<close> exactly when the registry is empty after it, which covers the step
  from one entry to none and also an unregister on an empty registry. Registering two
  instances with different view identifiers and unregistering both makes one subscribe
  call and then one unsubscribe call.
\<close>

theorem registry_subscription_follows_size:
  "(registryInv w \<longrightarrow> registryInv (runOps e ops w)) \<and>
   trace (attachPropUpdater e i w) =
     trace w @ (if length (NODE_MAPPING (attachPropUpdater e i w)) = 1
                then [AddListener channel RegistryListener] else []) \<and>
   trace (detachPropUpdater e i w) =
     trace w @ (if length (NODE_MAPPING (detachPropUpdater e i w)) = 0
                then [RemoveAllListeners channel] else []) \<and>
   (NODE_MAPPING w = [] \<longrightarrow> length (NODE_MAPPING (attachPropUpdater e i w)) = 1) \<and>
   (NODE_MAPPING w = [(findNodeHandle e (WrapperInstance i), j)] \<longrightarrow>
      length (NODE_MAPPING (detachPropUpdater e i w)) = 0) \<and>
   (findNodeHandle e (WrapperInstance a) \<noteq> findNodeHandle e (WrapperInstance b) \<and>
    NODE_MAPPING w = [] \<longrightarrow>
      trace (runOps e [Register a, Register b, Unregister a, Unregister b] w) =
        trace w @ [AddListener channel RegistryListener, RemoveAllListeners channel])"
  using registryInv_runOps [of w e ops] attachPropUpdater_trace [of e i w]
    detachPropUpdater_trace [of e i w] attachPropUpdater_first_entry [of w e i]
    detachPropUpdater_last_entry [of w e i j] register_two_unregister_both [of e a b w]
  by blast

theorem registry_subscription_follows_size_witness:
  "registryInv exampleWorld \<and>
   registryInv (runOps (exampleEnv ''ios'') [Register 1, Unregister 2, Register 2] exampleWorld) \<and>
   subscribed (runOps (exampleEnv ''ios'') [Register 1, Unregister 2, Register 2] exampleWorld) \<and>
   NODE_MAPPING exampleWorld = [] \<and>
   trace (attachPropUpdater (exampleEnv ''ios'') 1 exampleWorld) =
     [AddListener channel RegistryListener] \<and>
   NODE_MAPPING (exampleWorld\<lparr>NODE_MAPPING := [(Tag 1, 1)]\<rparr>) =
     [(findNodeHandle (exampleEnv ''ios'') (WrapperInstance 1), 1)] \<and>
   trace (detachPropUpdater (exampleEnv ''ios'') 1 (exampleWorld\<lparr>NODE_MAPPING := [(Tag 1, 1)]\<rparr>)) =
     [RemoveAllListeners channel] \<and>
   findNodeHandle (exampleEnv ''ios'') (WrapperInstance 1) \<noteq>
     findNodeHandle (exampleEnv ''ios'') (WrapperInstance 2) \<and>
   trace (runOps (exampleEnv ''ios'') [Register 1, Register 2, Unregister 1, Unregister 2]
            exampleWorld) =
     [AddListener channel RegistryListener, RemoveAllListeners channel]"
proof -
  have inv: "registryInv exampleWorld"
    by (simp add: registryInv_def exampleWorld_def subscribed_def)
  have e: "NODE_MAPPING exampleWorld = []" "trace exampleWorld = []"
    by (simp_all add: exampleWorld_def)
  have t: "findNodeHandle (exampleEnv ''ios'') (WrapperInstance 1) \<noteq>
     findNodeHandle (exampleEnv ''ios'') (WrapperInstance 2)"
    "NODE_MAPPING (exampleWorld\<lparr>NODE_MAPPING := [(Tag 1, 1)]\<rparr>) =
     [(findNodeHandle (exampleEnv ''ios'') (WrapperInstance 1), 1)]"
    by (simp_all add: exampleEnv_def)
  have s: "subscribed (runOps (exampleEnv ''ios'') [Register 1, Unregister 2, Register 2] exampleWorld)"
    by (simp add: runOps_def attachPropUpdater_def detachPropUpdater_def Let_def addListener_def
        removeAllListeners_def emit_def exampleEnv_def exampleWorld_def subscribed_def)
  show ?thesis
    using inv e t s
      registry_subscription_follows_size
        [of exampleWorld "exampleEnv ''ios''" "[Register 1, Unregister 2, Register 2]" 1 1 1 2]
      registry_subscription_follows_size
        [of "exampleWorld\<lparr>NODE_MAPPING := [(Tag 1, 1)]\<rparr>" "exampleEnv ''ios''" "[]" 1 1 1 2]
    by (simp add: exampleWorld_def)
qed

text \<open>
  Two instances that resolve to the same view identifier (here both render nothing, so
  both resolve to \<open>null\<close>): each register leaves one entry and subscribes, each unregister
  leaves none and unsubscribes.
\<close>

theorem registry_same_view_counterexample:
  "findNodeHandle (nothingRendered ''web'') (WrapperInstance 1) =
     findNodeHandle (nothingRendered ''web'') (WrapperInstance 2) \<and>
   trace (runOps (nothingRendered ''web'') [Register 1, Register 2, Unregister 1, Unregister 2]
            exampleWorld) =
     [AddListener channel RegistryListener, AddListener channel RegistryListener,
      RemoveAllListeners channel, RemoveAllListeners channel] \<and>
   length (NODE_MAPPING (attachPropUpdater (nothingRendered ''web'') 1 exampleWorld)) = 1 \<and>
   length (NODE_MAPPING (attachPropUpdater (nothingRendered ''web'') 2
             (attachPropUpdater (nothingRendered ''web'') 1 exampleWorld))) = 1"
  by (simp add: runOps_def attachPropUpdater_def detachPropUpdater_def Let_def addListener_def
      removeAllListeners_def emit_def nothingRendered_def exampleEnv_def exampleWorld_def)

text \<open>
  C9: when \<open>_detachPropUpdater\<close> leaves the registry empty it calls
  \<open>removeAllListeners\<close> on the channel, so no listener at all stays subscribed to it, the
  ones other code added included; subscriptions to other event types stay.
\<close>

theorem detachPropUpdater_last_entry_removes_all:
  assumes "length (AList.delete (findNodeHandle e (WrapperInstance self)) (NODE_MAPPING w)) = 0"
  shows "(\<forall>l. (channel, l) \<notin> set (emitter (detachPropUpdater e self w))) \<and>
         trace (detachPropUpdater e self w) = trace w @ [RemoveAllListeners channel] \<and>
         filter (\<lambda>s. fst s \<noteq> channel) (emitter (detachPropUpdater e self w)) =
           filter (\<lambda>s. fst s \<noteq> channel) (emitter w)"
  using assms by (auto simp add: detachPropUpdater_def Let_def removeAllListeners_def emit_def)

theorem detachPropUpdater_last_entry_removes_all_witness:
  "length (AList.delete (findNodeHandle (exampleEnv ''ios'') (WrapperInstance 4))
      (NODE_MAPPING (exampleWorld\<lparr>NODE_MAPPING := [(Tag 4, 4)],
         emitter := [(channel, OtherListener 9), (channel, RegistryListener),
                     (''other'', OtherListener 2)]\<rparr>))) = 0 \<and>
   emitter (detachPropUpdater (exampleEnv ''ios'') 4
      (exampleWorld\<lparr>NODE_MAPPING := [(Tag 4, 4)],
         emitter := [(channel, OtherListener 9), (channel, RegistryListener),
                     (''other'', OtherListener 2)]\<rparr>)) = [(''other'', OtherListener 2)] \<and>
   trace (detachPropUpdater (exampleEnv ''ios'') 4
      (exampleWorld\<lparr>NODE_MAPPING := [(Tag 4, 4)],
         emitter := [(channel, OtherListener 9), (channel, RegistryListener),
                     (''other'', OtherListener 2)]\<rparr>)) = [RemoveAllListeners channel]"
  using detachPropUpdater_last_entry_removes_all
      [of "exampleEnv ''ios''" 4
          "exampleWorld\<lparr>NODE_MAPPING := [(Tag 4, 4)],
             emitter := [(channel, OtherListener 9), (channel, RegistryListener),
                         (''other'', OtherListener 2)]\<rparr>"]
  by (simp add: exampleEnv_def exampleWorld_def detachPropUpdater_def Let_def
      removeAllListeners_def emit_def channel_def)



subsection \<open>Publishing view descriptors\<close>

text \<open>
  C7, as the code has it: on every platform but the web, when no host instance is found
  for the instance, \<open>_attachAnimatedStyles\<close> throws the error about the missing host
  instance and registers no descriptor.
\<close>

theorem attachAnimatedStyles_no_host_instance:
  "platformOS e \<noteq> ''web'' \<Longrightarrow> findHostInstance e self = None \<Longrightarrow>
   attachAnimatedStyles e self w = (w, Some (Error hostInstance_msg))"
  by (simp add: attachAnimatedStyles_def Let_def)

theorem attachAnimatedStyles_no_host_instance_witness:
  "platformOS (nothingRendered ''android'') \<noteq> ''web'' \<and>
   findHostInstance (nothingRendered ''android'') 0 = None \<and>
   attachAnimatedStyles (nothingRendered ''android'') 0
      (updInstance 0 (\<lambda>i. i\<lparr>props := [(''style'', AnimatedStyle 3)]\<rparr>) exampleWorld) =
     (updInstance 0 (\<lambda>i. i\<lparr>props := [(''style'', AnimatedStyle 3)]\<rparr>) exampleWorld,
      Some (Error hostInstance_msg))"
  using attachAnimatedStyles_no_host_instance
      [of "nothingRendered ''android''" 0
          "updInstance 0 (\<lambda>i. i\<lparr>props := [(''style'', AnimatedStyle 3)]\<rparr>) exampleWorld"]
  by (simp add: nothingRendered_def exampleEnv_def)

text \<open>
  On the web the handle comes from \<open>findNodeHandle\<close> and is not checked: with no handle
  the step throws nothing and registers a descriptor whose tag is \<open>null\<close>.
\<close>

theorem attachAnimatedStyles_web_no_handle_counterexample:
  "findNodeHandle (nothingRendered ''web'') (WrapperInstance 0) = TagNull \<and>
   findHostInstance (nothingRendered ''web'') 0 = None \<and>
   snd (attachAnimatedStyles (nothingRendered ''web'') 0
      (updInstance 0 (\<lambda>i. i\<lparr>props := [(''style'', AnimatedStyle 3)]\<rparr>) exampleWorld)) = None \<and>
   trace (fst (attachAnimatedStyles (nothingRendered ''web'') 0
      (updInstance 0 (\<lambda>i. i\<lparr>props := [(''style'', AnimatedStyle 3)]\<rparr>) exampleWorld))) =
     [ViewDescriptorsAdd 3 TagNull NameNull]"
  by (simp add: attachAnimatedStyles_def Let_def nothingRendered_def exampleEnv_def
      exampleWorld_def updInstance_def newInstance_def getProp_def ok_def)

subsection \<open>The update callback before mount\<close>

lemma quiet_refl [simp]: "quiet w w"
  by (simp add: quiet_def)

lemma quiet_trans: "quiet w w1 \<Longrightarrow> quiet w1 w2 \<Longrightarrow> quiet w w2"
  by (simp add: quiet_def)

lemma quiet_emit: "\<not> isCallbackEffect c \<Longrightarrow> quiet w (emit c w)"
  by (simp add: quiet_def callbackEffects_def)

lemma quiet_fold:
  assumes "\<And>x v. quiet v (f x v)"
  shows "quiet w (fold f xs w)"
proof (induction xs arbitrary: w)
  case Nil
  show ?case by simp
next
  case (Cons x xs)
  have "quiet w (f x w)" by (rule assms)
  moreover have "quiet (f x w) (fold f xs (f x w))" by (rule Cons.IH)
  ultimately show ?case using quiet_trans by fastforce
qed

lemma quiet_attachNativeEvent: "quiet w (attachNativeEvent node viewTag kv w)"
  by (cases "(node, viewTag, kv, w)" rule: attachNativeEvent.cases) (simp_all add: quiet_emit)

lemma quiet_attachNativeEvents: "quiet w (fst (attachNativeEvents e self w))"
  by (simp add: attachNativeEvents_def ok_def quiet_fold quiet_attachNativeEvent split: sum.splits)

lemma quiet_setNativeView: "quiet w (setNativeView self w)"
  by (simp add: setNativeView_def quiet_emit split: option.splits)

lemma quiet_attachPropUpdater: "quiet w (attachPropUpdater e self w)"
  by (simp add: attachPropUpdater_def Let_def addListener_def quiet_def callbackEffects_def)

lemma quiet_addViewDescriptor: "quiet w (addViewDescriptor viewTag name v w)"
  by (cases "(viewTag, name, v, w)" rule: addViewDescriptor.cases) (simp_all add: quiet_emit)

lemma quiet_publish:
  "quiet w (addViewDescriptor viewTag name v (fold (addViewDescriptor viewTag name) xs w))"
  using quiet_trans quiet_fold [of "addViewDescriptor viewTag name"] quiet_addViewDescriptor
  by blast

lemma quiet_attachAnimatedStyles: "quiet w (fst (attachAnimatedStyles e self w))"
proof -
  have adapt: "quiet w (emit (AdaptViewConfig c) w)" for c
    by (simp add: quiet_emit)
  show ?thesis
    unfolding attachAnimatedStyles_def Let_def ok_def
    by (auto split: option.splits intro: quiet_publish quiet_trans [OF adapt quiet_publish])
qed

lemma quiet_andThen_snd:
  assumes "\<And>v. quiet v (fst (g v))"
  shows "quiet (fst (f w)) (fst (andThen f g w))"
proof (cases "f w")
  case (Pair w1 err)
  then show ?thesis using assms [of w1] by (cases err) (simp_all add: andThen_def)
qed

lemma quiet_andThen:
  assumes "\<And>v. quiet v (fst (f v))" and "\<And>v. quiet v (fst (g v))"
  shows "quiet w (fst (andThen f g w))"
  using quiet_trans [OF assms(1) quiet_andThen_snd [of g f w, OF assms(2)]] .

lemma componentDidMount_quiet_after_replay:
  "quiet (fst (replayDeferredCallback self w)) (fst (componentDidMount e self w))"
  unfolding componentDidMount_def
  by (intro quiet_andThen_snd quiet_andThen)
    (simp_all add: ok_def quiet_setNativeView quiet_attachNativeEvents quiet_attachPropUpdater
      quiet_attachAnimatedStyles)

lemma fireCallback_premature:
  "component (instances w self) = None \<Longrightarrow>
   fireCallback self (Suc n) w =
     ok (updInstance self (\<lambda>i. i\<lparr>invokeAnimatedPropsCallbackOnMount := True\<rparr>) w)"
proof (induction n arbitrary: w)
  case 0
  then show ?case by (simp add: andThen_def animatedPropsCallback_def ok_def)
next
  case (Suc n)
  let ?w1 = "updInstance self (\<lambda>i. i\<lparr>invokeAnimatedPropsCallbackOnMount := True\<rparr>) w"
  have c: "component (instances ?w1 self) = None"
    using Suc.prems by (simp add: updInstance_def)
  have "fireCallback self (Suc (Suc n)) w = fireCallback self (Suc n) ?w1"
    using Suc.prems by (simp add: andThen_def animatedPropsCallback_def ok_def)
  also have "\<dots> = ok (updInstance self (\<lambda>i. i\<lparr>invokeAnimatedPropsCallbackOnMount := True\<rparr>) ?w1)"
    using Suc.IH [OF c] .
  also have "updInstance self (\<lambda>i. i\<lparr>invokeAnimatedPropsCallbackOnMount := True\<rparr>) ?w1 = ?w1"
    by (simp add: updInstance_def)
  finally show ?case .
qed

text \<open>
  C6: while no component reference exists, any number of firings of the callback (one or
  more) only sets the flag: no call is made and nothing is thrown. Mounting, with the
  reference then set, runs the callback exactly once and leaves the flag cleared. If the
  flag was never set, mounting does not run the callback.
\<close>

theorem deferred_callback_replayed_once:
  assumes "component (instances w self) = None"
    and "propsAnimated (instances w self) = Some p"
    and "fired = fst (fireCallback self (Suc n) w)"
    and "mounted = fst (componentDidMount e self (setLocalRef self (Some c) fired))"
    and "unfired = fst (componentDidMount e self (setLocalRef self (Some c) w))"
  shows "snd (fireCallback self (Suc n) w) = None \<and>
         invokeAnimatedPropsCallbackOnMount (instances fired self) \<and>
         trace fired = trace w \<and>
         callbackEffects mounted = callbackEffects w + 1 \<and>
         \<not> invokeAnimatedPropsCallbackOnMount (instances mounted self) \<and>
         (\<not> invokeAnimatedPropsCallbackOnMount (instances w self) \<longrightarrow>
            callbackEffects unfired = callbackEffects w \<and>
            \<not> invokeAnimatedPropsCallbackOnMount (instances unfired self))"
proof -
  let ?set = "updInstance self (\<lambda>i. i\<lparr>invokeAnimatedPropsCallbackOnMount := True\<rparr>) w"
  have fired: "fireCallback self (Suc n) w = ok ?set"
    using assms(1) by (rule fireCallback_premature)
  then have f: "fired = ?set" using assms(3) by (simp add: ok_def)
  let ?wm = "setLocalRef self (Some c) fired"
  let ?r = "fst (replayDeferredCallback self ?wm)"
  have r1: "callbackEffects ?r = callbackEffects w + 1"
    using assms(1,2) f
    by (auto simp add: replayDeferredCallback_def animatedPropsCallback_def setLocalRef_def
        updInstance_def ok_def callbackEffects_def)
  have r2: "\<not> invokeAnimatedPropsCallbackOnMount (instances ?r self)"
    using assms(1,2) f
    by (auto simp add: replayDeferredCallback_def animatedPropsCallback_def setLocalRef_def
        updInstance_def ok_def)
  have q: "quiet ?r mounted"
    unfolding assms(4) by (rule componentDidMount_quiet_after_replay)
  let ?w0 = "setLocalRef self (Some c) w"
  have u: "\<not> invokeAnimatedPropsCallbackOnMount (instances w self) \<Longrightarrow>
     fst (replayDeferredCallback self ?w0) = ?w0"
    using assms(1)
    by (simp add: replayDeferredCallback_def setLocalRef_def updInstance_def ok_def)
  have q0: "quiet (fst (replayDeferredCallback self ?w0)) unfired"
    unfolding assms(5) by (rule componentDidMount_quiet_after_replay)
  have w0: "callbackEffects ?w0 = callbackEffects w"
    "invokeAnimatedPropsCallbackOnMount (instances ?w0 self) =
       invokeAnimatedPropsCallbackOnMount (instances w self)"
    by (simp_all add: setLocalRef_def updInstance_def callbackEffects_def)
  show ?thesis
    using fired f r1 r2 q u q0 w0
    by (auto simp add: quiet_def ok_def updInstance_def)
qed


theorem deferred_callback_replayed_once_witness:
  "component (instances (constructor (exampleEnv ''ios'') 0 [] exampleWorld) 0) = None \<and>
   propsAnimated (instances (constructor (exampleEnv ''ios'') 0 [] exampleWorld) 0) = Some 1 \<and>
   snd (fireCallback 0 (Suc 2) (constructor (exampleEnv ''ios'') 0 [] exampleWorld)) = None \<and>
   invokeAnimatedPropsCallbackOnMount
     (instances (fst (fireCallback 0 (Suc 2) (constructor (exampleEnv ''ios'') 0 [] exampleWorld))) 0) \<and>
   callbackEffects (fst (componentDidMount (exampleEnv ''ios'') 0
      (setLocalRef 0 (Some (exampleComponent Callable))
         (fst (fireCallback 0 (Suc 2) (constructor (exampleEnv ''ios'') 0 [] exampleWorld)))))) = 1 \<and>
   \<not> invokeAnimatedPropsCallbackOnMount
     (instances (fst (componentDidMount (exampleEnv ''ios'') 0
        (setLocalRef 0 (Some (exampleComponent Callable))
           (fst (fireCallback 0 (Suc 2) (constructor (exampleEnv ''ios'') 0 [] exampleWorld)))))) 0) \<and>
   callbackEffects (fst (componentDidMount (exampleEnv ''ios'') 0
      (setLocalRef 0 (Some (exampleComponent Callable))
         (constructor (exampleEnv ''ios'') 0 [] exampleWorld)))) = 0"
proof -
  let ?w = "constructor (exampleEnv ''ios'') 0 [] exampleWorld"
  have c: "component (instances ?w 0) = None"
    by (simp add: constructor_def attachProps_def Let_def updInstance_def newInstance_def)
  have p: "propsAnimated (instances ?w 0) = Some 1"
    by (simp add: constructor_def attachProps_def Let_def updInstance_def newInstance_def
        exampleEnv_def)
  have f: "\<not> invokeAnimatedPropsCallbackOnMount (instances ?w 0)"
    by (simp add: constructor_def attachProps_def Let_def updInstance_def newInstance_def)
  have t: "callbackEffects ?w = 0"
    by (simp add: constructor_def attachProps_def Let_def updInstance_def newInstance_def
        exampleEnv_def exampleWorld_def callbackEffects_def)
  show ?thesis
    using c p f t
      deferred_callback_replayed_once
        [OF c p refl refl refl, of 2 "exampleEnv ''ios''" "exampleComponent Callable"]
    by simp
qed

subsection \<open>The projection of props for render\<close>

lemma ovg_refl [simp]: "onlyViewRefGrown self w w"
  unfolding onlyViewRefGrown_def by (metis append_Nil2 replicate_0)


































end
